theory Spec2Isabelle
  imports Main "HOL-Library.Sublist"
begin

section \<open>Python strings\<close>

text \<open>
  A Python \<open>str\<close> is modelled by the bytes of its UTF-8 encoding, the encoding the script
  reads and writes its files with. ASCII characters are one byte each; every byte of a
  character outside ASCII is \<open>0x80\<close> or above.
\<close>

definition LF :: char where
  "LF = CHR 0x0A"

definition CR :: char where
  "CR = CHR 0x0D"

definition lower_ascii :: "char \<Rightarrow> char" where
  "lower_ascii c =
     (case map_of (zip ''ABCDEFGHIJKLMNOPQRSTUVWXYZ'' ''abcdefghijklmnopqrstuvwxyz'') c of
        Some l \<Rightarrow> l
      | None \<Rightarrow> c)"

text \<open>
  \<open>str.lower\<close>. Two characters outside ASCII have a lowercase form that holds an ASCII
  letter: the Kelvin sign U+212A (bytes E2 84 AA) becomes \<open>k\<close>, and U+0130 (bytes C4 B0)
  becomes \<open>i\<close> followed by U+0307 (bytes CC 87). The lowercase form of every other
  character outside ASCII is outside ASCII again; its bytes are left as they are here,
  which does not change whether the result matches the name pattern below.
\<close>

fun lower :: "string \<Rightarrow> string" where
  "lower [] = []"
| "lower (c # cs) =
     (if prefix [CHR 0xE2, CHR 0x84, CHR 0xAA] (c # cs) then CHR ''k'' # lower (drop 2 cs)
      else if prefix [CHR 0xC4, CHR 0xB0] (c # cs) then [CHR ''i'', CHR 0xCC, CHR 0x87] @ lower (drop 1 cs)
      else lower_ascii c # lower cs)"


text \<open>
  \<open>s.replace(old, new)\<close>: the occurrences of \<open>old\<close> are found from the left, and the
  search goes on behind each occurrence that was replaced. With an empty \<open>old\<close>, Python
  puts \<open>new\<close> in front of every character and at the end.
\<close>

function replace_from :: "string \<Rightarrow> string \<Rightarrow> string \<Rightarrow> string" where
  "replace_from old new [] = []"
| "replace_from old new (c # cs) =
     (if old \<noteq> [] \<and> prefix old (c # cs)
      then new @ replace_from old new (drop (length old - 1) cs)
      else c # replace_from old new cs)"
  by pat_completeness auto
termination
  by (relation "measure (\<lambda>(old, new, s). length s)") auto

definition replace :: "string \<Rightarrow> string \<Rightarrow> string \<Rightarrow> string" where
  "replace s old new =
     (if old = [] then new @ concat (map (\<lambda>c. c # new) s) else replace_from old new s)"

section \<open>The regular expression of the name check\<close>

text \<open>
  The pattern \<open>^[a-z0-9_-]+$\<close> as Python's \<open>re\<close> module reads it: an assertion, a set
  repeated one or more times, an assertion. Without the MULTILINE flag \<open>^\<close> holds at the
  start of the string only, and \<open>$\<close> holds at the end of the string and also just before
  a line feed that is the last character of the string.
\<close>

datatype class_item = Range char char | Literal char

datatype re_item = At_Beginning | At_End | Max_Repeat1 "class_item list"

fun in_item :: "class_item \<Rightarrow> char \<Rightarrow> bool" where
  "in_item (Range lo hi) c = ((of_char lo :: nat) \<le> of_char c \<and> (of_char c :: nat) \<le> of_char hi)"
| "in_item (Literal l) c = (c = l)"

definition in_class :: "class_item list \<Rightarrow> char \<Rightarrow> bool" where
  "in_class cls c = list_ex (\<lambda>i. in_item i c) cls"

text \<open>
  The backtracking matcher at position \<open>pos\<close>, with the rest of the string from there.
  The repetition is greedy: it first tries to take one more character.
\<close>

fun re_match_at :: "re_item list \<Rightarrow> nat \<Rightarrow> string \<Rightarrow> bool" where
  "re_match_at [] pos s = True"
| "re_match_at (At_Beginning # items) pos s = (pos = 0 \<and> re_match_at items pos s)"
| "re_match_at (At_End # items) pos s = ((s = [] \<or> s = [LF]) \<and> re_match_at items pos s)"
| "re_match_at (Max_Repeat1 cls # items) pos [] = False"
| "re_match_at (Max_Repeat1 cls # items) pos (c # cs) =
     (in_class cls c \<and>
      (re_match_at (Max_Repeat1 cls # items) (Suc pos) cs \<or> re_match_at items (Suc pos) cs))"

text \<open>\<open>bool(re.match(pattern, s))\<close>: is there a match that starts at position 0.\<close>

definition re_match :: "re_item list \<Rightarrow> string \<Rightarrow> bool" where
  "re_match pattern s = re_match_at pattern 0 s"

definition name_class :: "class_item list" where
  "name_class = [Range CHR ''a'' CHR ''z'', Range CHR ''0'' CHR ''9'', Literal CHR ''_'', Literal CHR ''-'']"

definition name_pattern :: "re_item list" where
  "name_pattern = [At_Beginning, Max_Repeat1 name_class, At_End]"

text \<open>
  \<open>validate_project_name\<close>: \<open>None\<close> and the empty string are refused by \<open>if not name\<close>,
  everything else is decided by the pattern.
\<close>

definition validate_project_name :: "string option \<Rightarrow> bool" where
  "validate_project_name name =
     (case name of
        None \<Rightarrow> False
      | Some n \<Rightarrow> if n = [] then False else re_match name_pattern n)"

text \<open>What the messages of the script ask for: lowercase letters, digits, hyphens, underscores.\<close>

definition name_char :: "char \<Rightarrow> bool" where
  "name_char c =
     (((97::nat) \<le> of_char c \<and> (of_char c :: nat) \<le> 122) \<or>
      ((48::nat) \<le> of_char c \<and> (of_char c :: nat) \<le> 57) \<or> c = CHR ''_'' \<or> c = CHR ''-'')"

section \<open>Files, console and the ways a call ends\<close>

text \<open>
  A path is the list of its components; \<open>base_dir / '.git'\<close> is \<open>base_dir @ [''.git'']\<close>.
  The file system maps each path that exists to a directory or to a file with its bytes.
\<close>

type_synonym path = "string list"

datatype node = File string | Dir

type_synonym files = "path \<Rightarrow> node option"

datatype fs_op = Rmtree | Unlink | Read_Text | Write_Text

text \<open>What \<open>console.print\<close>, the progress bar and \<open>time.sleep\<close> leave behind, in order.\<close>

datatype task = Git_Task | Venv_Task | Database_Task | Readme_Task | Pyproject_Task

datatype message =
    Removing_Git path | Git_Removed | Git_Remove_Failed | No_Git_Found
  | Removing_Venv path | Venv_Removed | Venv_Remove_Failed | No_Venv_Found
  | Removing_Database path | Database_Removed | Database_Remove_Failed | No_Database_Found
  | Creating_Readme string | Readme_Created | Readme_Failed
  | Pyproject_Not_Found | Updating_Pyproject string | Pyproject_Read_Failed
  | Pyproject_Updated | Pyproject_Write_Failed
  | Invalid_Project_Name | Interactive_Setup_Panel | Blank_Line
  | Initializing_Panel string | Success_Panel string | Next_Steps_Panel
  | Progress_Add_Task nat | Progress_Update task | Progress_Advance | Progress_Complete
  | Sleep

text \<open>
  The world the script runs in. \<open>oserror op p fs = Some fs'\<close> says that the operation
  \<open>op\<close> on the path \<open>p\<close> raises \<open>OSError\<close> in the file system \<open>fs\<close> for a reason of the
  environment (permissions, a full disk), leaving the file system \<open>fs'\<close>. \<open>linesep\<close> is
  \<open>os.linesep\<close>. \<open>script_dir\<close> is \<open>Path(__file__).parent\<close>. \<open>prompt_answers\<close> and
  \<open>confirm_answers\<close> are the values that the calls of \<open>Prompt.ask\<close> and \<open>Confirm.ask\<close>
  will return, in order; when they run out the input has ended and the call raises
  \<open>EOFError\<close>.
\<close>

record world =
  files :: files
  console :: "message list"
  oserror :: "fs_op \<Rightarrow> path \<Rightarrow> files \<Rightarrow> files option"
  linesep :: string
  script_dir :: path
  prompt_answers :: "string list"
  confirm_answers :: "bool list"

datatype pyexc = ValueError | TypeError | IndexError | ArgumentError | EOFError

text \<open>
  How a call ends: it returns, it calls \<open>sys.exit(n)\<close>, or an exception that nothing
  catches leaves it. The exit status of the process follows: an uncaught exception makes
  the interpreter print a traceback and exit with status 1.
\<close>

datatype outcome = Returned | Sys_Exit int | Uncaught pyexc

fun exit_status :: "outcome \<Rightarrow> int" where
  "exit_status Returned = 0"
| "exit_status (Sys_Exit n) = n"
| "exit_status (Uncaught e) = 1"

datatype 'a result = Ok 'a | OSError

definition console_print :: "message \<Rightarrow> world \<Rightarrow> world" where
  "console_print m w = w\<lparr>console := console w @ [m]\<rparr>"

definition exists :: "path \<Rightarrow> world \<Rightarrow> bool" where
  "exists p w = (files w p \<noteq> None)"

text \<open>
  \<open>shutil.rmtree\<close> removes a directory with everything below it, and raises on a path
  that is no directory.
\<close>

definition rmtree :: "path \<Rightarrow> world \<Rightarrow> unit result \<times> world" where
  "rmtree p w =
     (case oserror w Rmtree p (files w) of
        Some left \<Rightarrow> (OSError, w\<lparr>files := left\<rparr>)
      | None \<Rightarrow>
          (case files w p of
             Some Dir \<Rightarrow> (Ok (), w\<lparr>files := (\<lambda>q. if prefix p q then None else files w q)\<rparr>)
           | _ \<Rightarrow> (OSError, w)))"

text \<open>\<open>Path.unlink\<close> removes a file, and raises on a directory or a missing path.\<close>

definition unlink :: "path \<Rightarrow> world \<Rightarrow> unit result \<times> world" where
  "unlink p w =
     (case oserror w Unlink p (files w) of
        Some left \<Rightarrow> (OSError, w\<lparr>files := left\<rparr>)
      | None \<Rightarrow>
          (case files w p of
             Some (File bytes) \<Rightarrow> (Ok (), w\<lparr>files := (files w)(p := None)\<rparr>)
           | _ \<Rightarrow> (OSError, w)))"

text \<open>
  Text mode with \<open>newline=None\<close>: on reading, \<open>\r\n\<close> and a lone \<open>\r\<close> become \<open>\n\<close>; on
  writing, every \<open>\n\<close> becomes \<open>os.linesep\<close>.
\<close>

fun universal_newlines :: "string \<Rightarrow> string" where
  "universal_newlines [] = []"
| "universal_newlines [c] = [if c = CR then LF else c]"
| "universal_newlines (c # d # s) =
     (if c = CR \<and> d = LF then LF # universal_newlines s
      else if c = CR then LF # universal_newlines (d # s)
      else c # universal_newlines (d # s))"

definition write_newlines :: "string \<Rightarrow> string \<Rightarrow> string" where
  "write_newlines sep s = concat (map (\<lambda>c. if c = LF then sep else [c]) s)"

definition read_text :: "path \<Rightarrow> world \<Rightarrow> string result \<times> world" where
  "read_text p w =
     (case oserror w Read_Text p (files w) of
        Some left \<Rightarrow> (OSError, w\<lparr>files := left\<rparr>)
      | None \<Rightarrow>
          (case files w p of
             Some (File bytes) \<Rightarrow> (Ok (universal_newlines bytes), w)
           | _ \<Rightarrow> (OSError, w)))"

text \<open>
  \<open>Path.write_text\<close> creates or overwrites a file; it raises when the path is a
  directory or when the parent of the path is no directory.
\<close>

definition write_text :: "path \<Rightarrow> string \<Rightarrow> world \<Rightarrow> unit result \<times> world" where
  "write_text p data w =
     (case oserror w Write_Text p (files w) of
        Some left \<Rightarrow> (OSError, w\<lparr>files := left\<rparr>)
      | None \<Rightarrow>
          (if p = [] \<or> files w p = Some Dir \<or> files w (butlast p) \<noteq> Some Dir then (OSError, w)
           else (Ok (), w\<lparr>files := (files w)(p \<mapsto> File (write_newlines (linesep w) data))\<rparr>)))"

section \<open>The steps of the script\<close>

definition remove_git_repo :: "path \<Rightarrow> world \<Rightarrow> outcome \<times> world" where
  "remove_git_repo base_dir w =
     (let git_dir = base_dir @ [''.git''] in
      if exists git_dir w then
        (case rmtree git_dir (console_print (Removing_Git git_dir) w) of
           (Ok u, w') \<Rightarrow> (Returned, console_print Git_Removed w')
         | (OSError, w') \<Rightarrow> (Sys_Exit 1, console_print Git_Remove_Failed w'))
      else (Returned, console_print No_Git_Found w))"

definition remove_venv :: "path \<Rightarrow> world \<Rightarrow> outcome \<times> world" where
  "remove_venv base_dir w =
     (let venv_dir = base_dir @ [''.venv''] in
      if exists venv_dir w then
        (case rmtree venv_dir (console_print (Removing_Venv venv_dir) w) of
           (Ok u, w') \<Rightarrow> (Returned, console_print Venv_Removed w')
         | (OSError, w') \<Rightarrow> (Sys_Exit 1, console_print Venv_Remove_Failed w'))
      else (Returned, console_print No_Venv_Found w))"

definition remove_database :: "path \<Rightarrow> world \<Rightarrow> outcome \<times> world" where
  "remove_database base_dir w =
     (let db_file = base_dir @ [''src'', ''db.sqlite3''] in
      if exists db_file w then
        (case unlink db_file (console_print (Removing_Database db_file) w) of
           (Ok u, w') \<Rightarrow> (Returned, console_print Database_Removed w')
         | (OSError, w') \<Rightarrow> (Sys_Exit 1, console_print Database_Remove_Failed w'))
      else (Returned, console_print No_Database_Found w))"

text \<open>\<open>description if description else default\<close>: \<open>None\<close> and the empty string are falsy.\<close>

definition or_default :: "string option \<Rightarrow> string \<Rightarrow> string" where
  "or_default description dflt =
     (case description of None \<Rightarrow> dflt | Some d \<Rightarrow> if d = [] then dflt else d)"

definition box_tee :: string where
  "box_tee = [CHR 0xE2, CHR 0x94, CHR 0x9C]"

definition box_dash :: string where
  "box_dash = [CHR 0xE2, CHR 0x94, CHR 0x80]"

definition box_corner :: string where
  "box_corner = [CHR 0xE2, CHR 0x94, CHR 0x94]"

text \<open>The lines of the README template that follow the overview.\<close>

definition readme_rest :: "string list" where
  \<open>readme_rest =
     [[],
      ''## Features'',
      [],
      ''- **Django 5.2+** - Latest Django features and security updates'',
      ''- **Custom User Model** - Pre-configured `CustomUser` extending `AbstractUser`'',
      ''- **django-allauth** - Email-based authentication with social account support'',
      ''- **uv** - Fast, modern Python package manager'',
      ''- **Just** - Command runner for development tasks'',
      ''- **Type Safety** - Full mypy strict mode with django-stubs'',
      ''- **Code Quality** - Ruff for linting/formatting, pre-commit hooks'',
      ''- **Testing** - pytest with pytest-django and coverage reporting'',
      ''- **Environment Configuration** - django-environ for 12-factor app compliance'',
      [],
      ''## Quick Start'',
      [],
      ''### Prerequisites'',
      [],
      ''- Python 3.13+'',
      ''- [uv](https://github.com/astral-sh/uv) - Install with `curl -LsSf https://astral.sh/uv/install.sh | sh`'',
      ''- [Just](https://github.com/casey/just) - Install with `brew install just` (macOS)'',
      [],
      ''### Installation'',
      [],
      ''1. Set up the environment:'',
      ''```bash'',
      ''just install'',
      ''```'',
      [],
      ''2. Create a `.env` file in the project root:'',
      ''```bash'',
      ''SECRET_KEY=your-secret-key-here'',
      ''DEBUG=True'',
      ''ALLOWED_HOSTS=localhost,127.0.0.1'',
      ''TIME_ZONE=UTC'',
      ''DATABASE_URL=sqlite:///src/db.sqlite3'',
      ''```'',
      [],
      ''3. Run migrations:'',
      ''```bash'',
      ''just dj-migrate'',
      ''```'',
      [],
      ''4. Create a superuser:'',
      ''```bash'',
      ''uv run python src/manage.py createsuperuser'',
      ''```'',
      [],
      ''5. Run the development server:'',
      ''```bash'',
      ''just run'',
      ''```'',
      [],
      ''## Available Commands'',
      [],
      ''Run `just` to see all available commands:'',
      [],
      ''- `just install` - Set up environment (uv sync + pre-commit install)'',
      ''- `just run` - Start Django dev server'',
      ''- `just test` - Run pytest suite'',
      ''- `just lint` - Run ruff linting and formatting'',
      ''- `just check` - Run all pre-commit hooks'',
      ''- `just dj-migrate` - Run migrations'',
      ''- `just new-app NAME` - Create new Django app'',
      [],
      ''## Project Structure'',
      [],
      ''```'',
      ''src/'',
      box_tee @ box_dash @ box_dash @ '' config/          # Django settings and configuration'',
      box_tee @ box_dash @ box_dash @ '' users/           # Custom user model'',
      box_tee @ box_dash @ box_dash @ '' templates/       # Project-wide templates'',
      box_corner @ box_dash @ box_dash @ '' static/          # Project-wide static files'',
      ''```'',
      [],
      ''## Development'',
      [],
      ''This project follows strict code quality standards:'',
      [],
      ''- **Python Style**: Single quotes, 120 char line length (enforced by ruff)'',
      ''- **Type Checking**: Strict mypy with django-stubs'',
      ''- **Pre-commit Hooks**: Automatic code quality checks on commit'',
      [],
      ''## License'',
      [],
      ''[Add your license here]'']\<close>

definition unlines :: "string list \<Rightarrow> string" where
  "unlines ls = concat (map (\<lambda>l. l @ [LF]) ls)"

definition readme_content :: "string \<Rightarrow> string \<Rightarrow> string" where
  "readme_content project_name overview =
     unlines ([''# '' @ project_name, [], ''## Overview'', [], overview] @ readme_rest)"

definition create_readme :: "path \<Rightarrow> string \<Rightarrow> string option \<Rightarrow> world \<Rightarrow> outcome \<times> world" where
  "create_readme base_dir project_name description w =
     (let readme_path = base_dir @ [''README.md''];
          overview = or_default description ''A Django project built with the Django Starter Template.''
      in case write_text readme_path (readme_content project_name overview)
                (console_print (Creating_Readme project_name) w) of
           (Ok u, w') \<Rightarrow> (Returned, console_print Readme_Created w')
         | (OSError, w') \<Rightarrow> (Sys_Exit 1, console_print Readme_Failed w'))"

definition name_literal :: string where
  \<open>name_literal = ''name = "django-starter-template"''\<close>

definition description_literal :: string where
  \<open>description_literal =
     ''description = "A simple way to start your Django project with a solid foundation."''\<close>

text \<open>The two replacements of \<open>update_pyproject_toml\<close>, from the text read to the text written.\<close>

definition updated_content :: "string \<Rightarrow> string \<Rightarrow> string option \<Rightarrow> string" where
  \<open>updated_content content project_name description =
     (let updated = replace content name_literal (''name = "'' @ project_name @ ''"'');
          new_description = or_default description (project_name @ '' - A Django project'')
      in replace updated description_literal (''description = "'' @ new_description @ ''"''))\<close>

definition update_pyproject_toml :: "path \<Rightarrow> string \<Rightarrow> string option \<Rightarrow> world \<Rightarrow> outcome \<times> world" where
  "update_pyproject_toml base_dir project_name description w =
     (let pyproject_path = base_dir @ [''pyproject.toml''] in
      if \<not> exists pyproject_path w then (Sys_Exit 1, console_print Pyproject_Not_Found w)
      else
        (case read_text pyproject_path (console_print (Updating_Pyproject project_name) w) of
           (OSError, w1) \<Rightarrow> (Sys_Exit 1, console_print Pyproject_Read_Failed w1)
         | (Ok content, w1) \<Rightarrow>
             (case write_text pyproject_path (updated_content content project_name description) w1 of
                (Ok u, w2) \<Rightarrow> (Returned, console_print Pyproject_Updated w2)
              | (OSError, w2) \<Rightarrow> (Sys_Exit 1, console_print Pyproject_Write_Failed w2))))"

definition console_prints :: "message list \<Rightarrow> world \<Rightarrow> world" where
  "console_prints ms w = w\<lparr>console := console w @ ms\<rparr>"

section \<open>The command line\<close>

text \<open>
  \<open>argparse\<close>, as far as \<open>cli\<close> uses it. A parser is the list of the arguments
  registered so far; a new \<open>ArgumentParser\<close> holds the help option.
\<close>

record argument =
  option_strings :: "string list"
  dest :: string
  nargs :: "string option"
  store_true :: bool

type_synonym parser = "argument list"

definition prefix_chars :: string where
  "prefix_chars = ''-''"

definition ArgumentParser :: parser where
  "ArgumentParser =
     [\<lparr>option_strings = [''-h'', ''--help''], dest = ''help'', nargs = Some ''0'', store_true = False\<rparr>]"

text \<open>
  The loop of \<open>_get_optional_kwargs\<close> over the names of an option: a name that does not
  start with a prefix character is refused with \<open>ValueError\<close>.
\<close>

fun check_option_strings :: "string list \<Rightarrow> pyexc option" where
  "check_option_strings [] = None"
| "check_option_strings ([] # rest) = Some IndexError"
| "check_option_strings ((c # cs) # rest) =
     (if c \<notin> set prefix_chars then Some ValueError else check_option_strings rest)"

definition is_long_option :: "string \<Rightarrow> bool" where
  "is_long_option s = (length s > 1 \<and> s ! 1 \<in> set prefix_chars)"

definition infer_dest :: "string list \<Rightarrow> string" where
  "infer_dest names =
     (let longs = filter is_long_option names;
          dest_option_string = (if longs \<noteq> [] then hd longs else hd names)
      in map (\<lambda>c. if c = CHR ''-'' then CHR ''_'' else c)
           (dropWhile (\<lambda>c. c \<in> set prefix_chars) dest_option_string))"

definition register :: "argument \<Rightarrow> parser \<Rightarrow> pyexc + parser" where
  "register a parser =
     (if \<exists>s \<in> set (option_strings a). s \<in> set (concat (map option_strings parser))
      then Inl ArgumentError else Inr (parser @ [a]))"

text \<open>
  \<open>add_argument(*names, nargs=..., action=...)\<close>: a positional argument is declared by
  exactly one name that starts with no prefix character; with any other list of names
  an option is declared, and each of its names has to start with a prefix character.
\<close>

definition add_argument :: "string list \<Rightarrow> string option \<Rightarrow> bool \<Rightarrow> parser \<Rightarrow> pyexc + parser" where
  "add_argument names na flag parser =
     (case names of
        [] \<Rightarrow> Inl TypeError
      | [[]] \<Rightarrow> Inl IndexError
      | [c # cs] \<Rightarrow>
          if c \<notin> set prefix_chars
          then register \<lparr>option_strings = [], dest = c # cs, nargs = na, store_true = flag\<rparr> parser
          else if infer_dest names = [] then Inl ValueError
          else register \<lparr>option_strings = names, dest = infer_dest names, nargs = na, store_true = flag\<rparr> parser
      | _ \<Rightarrow>
          (case check_option_strings names of
             Some e \<Rightarrow> Inl e
           | None \<Rightarrow>
               if infer_dest names = [] then Inl ValueError
               else register \<lparr>option_strings = names, dest = infer_dest names, nargs = na, store_true = flag\<rparr> parser))"

record namespace =
  project_name :: "string option"
  description :: "string option"
  skip_git :: bool

text \<open>
  \<open>cli\<close>. \<open>parse_args\<close> stands for \<open>ArgumentParser.parse_args\<close> on the arguments of the
  command line: it returns a namespace, or ends the process (usage error, \<open>--help\<close>).
  An exception of \<open>add_argument\<close> is caught nowhere.
\<close>

definition cli :: "(parser \<Rightarrow> string list \<Rightarrow> outcome + namespace) \<Rightarrow> string list \<Rightarrow> outcome + namespace" where
  "cli parse_args argv =
     (case add_argument [''--name'', ''project_name''] (Some ''?'') False ArgumentParser of
        Inl e \<Rightarrow> Inl (Uncaught e)
      | Inr parser1 \<Rightarrow>
          (case add_argument [''-d'', ''--description''] None False parser1 of
             Inl e \<Rightarrow> Inl (Uncaught e)
           | Inr parser2 \<Rightarrow>
               (case add_argument [''--skip-git''] None True parser2 of
                  Inl e \<Rightarrow> Inl (Uncaught e)
                | Inr parser3 \<Rightarrow> parse_args parser3 argv)))"

section \<open>The main function\<close>

text \<open>The loop that asks for a project name until one passes the check.\<close>

fun ask_project_name :: "string list \<Rightarrow> world \<Rightarrow> (outcome + string) \<times> world" where
  "ask_project_name [] w = (Inl (Uncaught EOFError), w\<lparr>prompt_answers := []\<rparr>)"
| "ask_project_name (answer # rest) w =
     (let name = lower answer in
      if validate_project_name (Some name) then (Inr name, w\<lparr>prompt_answers := rest\<rparr>)
      else ask_project_name rest (console_print Invalid_Project_Name w))"

definition ask_description :: "world \<Rightarrow> (outcome + string option) \<times> world" where
  "ask_description w =
     (case confirm_answers w of
        [] \<Rightarrow> (Inl (Uncaught EOFError), w)
      | yes # later \<Rightarrow>
          (let w1 = w\<lparr>confirm_answers := later\<rparr> in
           if yes then
             (case prompt_answers w1 of
                [] \<Rightarrow> (Inl (Uncaught EOFError), w1)
              | d # rest \<Rightarrow> (Inr (Some d), w1\<lparr>prompt_answers := rest\<rparr>))
           else (Inr None, w1)))"

definition interactive_setup :: "world \<Rightarrow> (outcome + string \<times> string option) \<times> world" where
  "interactive_setup w =
     (let w1 = console_prints [Interactive_Setup_Panel, Blank_Line] w in
      case ask_project_name (prompt_answers w1) w1 of
        (Inl out, w2) \<Rightarrow> (Inl out, w2)
      | (Inr name, w2) \<Rightarrow>
          (case ask_description w2 of
             (Inl out, w3) \<Rightarrow> (Inl out, w3)
           | (Inr descr, w3) \<Rightarrow> (Inr (name, descr), console_print Blank_Line w3)))"

text \<open>
  Lines 259 to 296: the project name and the description, from the namespace or from the
  prompts. A name that is \<open>None\<close> or empty is falsy and leads to the prompts.
\<close>

definition resolve_inputs :: "namespace \<Rightarrow> world \<Rightarrow> (outcome + string \<times> string option) \<times> world" where
  "resolve_inputs args w =
     (case project_name args of
        None \<Rightarrow> interactive_setup w
      | Some given \<Rightarrow>
          if given = [] then interactive_setup w
          else if \<not> validate_project_name (Some (lower given))
          then (Inl (Sys_Exit 1), console_print Invalid_Project_Name w)
          else (Inr (lower given, description args), w))"

text \<open>
  One block of the progress bar: describe the task, run the step, pause, advance. A step
  that does not return ends the block there.
\<close>

definition progress_step :: "task \<Rightarrow> (world \<Rightarrow> outcome \<times> world) \<Rightarrow> world \<Rightarrow> outcome \<times> world" where
  "progress_step t step w =
     (case step (console_print (Progress_Update t) w) of
        (Returned, w') \<Rightarrow> (Returned, console_prints [Sleep, Progress_Advance] w')
      | (out, w') \<Rightarrow> (out, w'))"

text \<open>Statements one after the other: the first that does not return ends the sequence.\<close>

fun run_steps :: "(world \<Rightarrow> outcome \<times> world) list \<Rightarrow> world \<Rightarrow> outcome \<times> world" where
  "run_steps [] w = (Returned, w)"
| "run_steps (step # steps) w =
     (case step w of
        (Returned, w') \<Rightarrow> run_steps steps w'
      | (out, w') \<Rightarrow> (out, w'))"

text \<open>Lines 319 to 348: the blocks inside \<open>with Progress(...)\<close>.\<close>

definition setup_steps :: "path \<Rightarrow> string \<Rightarrow> string option \<Rightarrow> bool \<Rightarrow> (world \<Rightarrow> outcome \<times> world) list" where
  "setup_steps base_dir name descr skip =
     (if \<not> skip then [progress_step Git_Task (remove_git_repo base_dir)] else []) @
     [progress_step Venv_Task (remove_venv base_dir),
      progress_step Database_Task (remove_database base_dir),
      progress_step Readme_Task (create_readme base_dir name descr),
      progress_step Pyproject_Task (update_pyproject_toml base_dir name descr)]"

text \<open>The body of \<open>main\<close> from line 258 on, for the namespace that \<open>cli\<close> returned.\<close>

definition main_with_args :: "namespace \<Rightarrow> world \<Rightarrow> outcome \<times> world" where
  "main_with_args args w =
     (case resolve_inputs args w of
        (Inl out, w1) \<Rightarrow> (out, w1)
      | (Inr (name, descr), w1) \<Rightarrow>
          (let base_dir = script_dir w1;
               total_tasks = (if \<not> skip_git args then 5 else 4);
               w2 = console_prints [Blank_Line, Initializing_Panel name, Blank_Line,
                                    Progress_Add_Task total_tasks] w1
           in case run_steps (setup_steps base_dir name descr (skip_git args)) w2 of
                (Returned, w3) \<Rightarrow>
                  (Returned, console_prints [Progress_Complete, Blank_Line, Success_Panel name,
                                             Next_Steps_Panel] w3)
              | (out, w3) \<Rightarrow> (out, w3)))"

definition main :: "(parser \<Rightarrow> string list \<Rightarrow> outcome + namespace) \<Rightarrow> string list \<Rightarrow> world \<Rightarrow> outcome \<times> world" where
  "main parse_args argv w =
     (case cli parse_args argv of
        Inl out \<Rightarrow> (out, w)
      | Inr args \<Rightarrow> main_with_args args w)"

section \<open>Sample worlds\<close>

definition no_faults :: "fs_op \<Rightarrow> path \<Rightarrow> files \<Rightarrow> files option" where
  "no_faults op p fs = None"

definition sample_manifest :: string where
  \<open>sample_manifest =
     ''[project]'' @ [CR, LF] @ ''name = "django-starter-template"'' @ [LF] @
     ''description = "A simple way to start your Django project with a solid foundation."'' @ [LF] @
     ''version = "0.1.0"'' @ [LF]\<close>

text \<open>A checkout that was never set up: no repository, no environment, no database.\<close>

definition clean_world :: world where
  "clean_world =
     \<lparr>files = [[''srv''] \<mapsto> Dir, [''srv'', ''pyproject.toml''] \<mapsto> File sample_manifest],
      console = [], oserror = no_faults, linesep = [LF], script_dir = [''srv''],
      prompt_answers = [], confirm_answers = []\<rparr>"

text \<open>A checkout in use, with a repository, an environment and a database.\<close>

definition used_world :: world where
  "used_world =
     \<lparr>files = [[''srv''] \<mapsto> Dir,
               [''srv'', ''.git''] \<mapsto> Dir, [''srv'', ''.git'', ''HEAD''] \<mapsto> File ''ref: refs/heads/main'',
               [''srv'', ''.venv''] \<mapsto> Dir, [''srv'', ''.venv'', ''pyvenv.cfg''] \<mapsto> File ''home = /usr/bin'',
               [''srv'', ''src''] \<mapsto> Dir, [''srv'', ''src'', ''db.sqlite3''] \<mapsto> File ''SQLite format 3'',
               [''srv'', ''pyproject.toml''] \<mapsto> File sample_manifest],
      console = [], oserror = no_faults, linesep = [LF], script_dir = [''srv''],
      prompt_answers = [], confirm_answers = []\<rparr>"



text \<open>The checkout in use, where one operation on one path is denied.\<close>

definition denying :: "fs_op \<Rightarrow> path \<Rightarrow> fs_op \<Rightarrow> path \<Rightarrow> files \<Rightarrow> files option" where
  "denying op p op' p' fs = (if op' = op \<and> p' = p then Some fs else None)"

definition denied_world :: "fs_op \<Rightarrow> path \<Rightarrow> world" where
  "denied_world op p = used_world\<lparr>oserror := denying op p\<rparr>"

text \<open>A directory without a manifest.\<close>

definition bare_world :: world where
  "bare_world =
     \<lparr>files = [[''srv''] \<mapsto> Dir],
      console = [], oserror = no_faults, linesep = [LF], script_dir = [''srv''],
      prompt_answers = [], confirm_answers = []\<rparr>"


definition mixed_case_args :: namespace where
  "mixed_case_args = \<lparr>project_name = Some ''My-Project'', description = None, skip_git = True\<rparr>"

text \<open>A step keeps a path when every run of it that returns leaves that path as it was.\<close>

definition keeps :: "path \<Rightarrow> (world \<Rightarrow> outcome \<times> world) \<Rightarrow> bool" where
  "keeps q step = (\<forall>w. fst (step w) = Returned \<longrightarrow> files (snd (step w)) q = files w q)"

text \<open>
  A stand-in for \<open>parse_args\<close> in sample runs: the first argument is the project name,
  \<open>--skip-git\<close> anywhere sets the flag.
\<close>

definition sample_parse_args :: "parser \<Rightarrow> string list \<Rightarrow> outcome + namespace" where
  "sample_parse_args parser argv =
     Inr \<lparr>project_name = (case filter (\<lambda>a. a \<noteq> ''--skip-git'') argv of [] \<Rightarrow> None | a # rest \<Rightarrow> Some a),
          description = None,
          skip_git = (''--skip-git'' \<in> set argv)\<rparr>"

section \<open>The name check\<close>

lemma in_name_class: "in_class name_class c = name_char c"
  by (auto simp add: in_class_def name_class_def name_char_def)

lemma repeat_then_end:
  "re_match_at [Max_Repeat1 cls, At_End] pos s =
     (s \<noteq> [] \<and> (list_all (in_class cls) s \<or>
        (butlast s \<noteq> [] \<and> last s = LF \<and> list_all (in_class cls) (butlast s))))"
proof (induction s arbitrary: pos)
  case Nil
  show ?case by simp
next
  case (Cons c cs)
  have "re_match_at [Max_Repeat1 cls, At_End] pos (c # cs) =
          (in_class cls c \<and> (re_match_at [Max_Repeat1 cls, At_End] (Suc pos) cs \<or> cs = [] \<or> cs = [LF]))"
    by simp
  also have "\<dots> = (in_class cls c \<and>
      ((cs \<noteq> [] \<and> (list_all (in_class cls) cs \<or>
          (butlast cs \<noteq> [] \<and> last cs = LF \<and> list_all (in_class cls) (butlast cs)))) \<or>
       cs = [] \<or> cs = [LF]))"
    by (simp only: Cons.IH)
  also have "\<dots> = (c # cs \<noteq> [] \<and> (list_all (in_class cls) (c # cs) \<or>
        (butlast (c # cs) \<noteq> [] \<and> last (c # cs) = LF \<and> list_all (in_class cls) (butlast (c # cs)))))"
    by (cases cs) auto
  finally show ?case .
qed

text \<open>
  What the check accepts, exactly: a non-empty string of name characters, and also such
  a string followed by one line feed.
\<close>

lemma validate_project_name_iff:
  "validate_project_name (Some s) =
     (s \<noteq> [] \<and> (list_all name_char s \<or>
        (butlast s \<noteq> [] \<and> last s = LF \<and> list_all name_char (butlast s))))"
proof -
  have "in_class name_class = name_char"
    by (rule ext) (rule in_name_class)
  then show ?thesis
    by (auto simp add: validate_project_name_def re_match_def name_pattern_def repeat_then_end)
qed

text \<open>
  C1. The claim: \<open>validate_project_name(s)\<close> is true if and only if \<open>s\<close> is non-empty and
  consists only of lowercase letters, digits, hyphens and underscores. The code accepts
  more: the name \<open>a\<close> followed by a line feed passes the check although the line feed is
  none of these characters, because \<open>$\<close> also matches just before a final line feed.
\<close>

theorem validate_project_name_accepts_final_newline:
  "validate_project_name (Some ''a\<newline>'') \<and> \<not> list_all name_char ''a\<newline>''"
  by (simp add: validate_project_name_iff name_char_def LF_def)

section \<open>The command line\<close>

lemma add_argument_name_refused:
  "add_argument [''--name'', ''project_name''] na flag parser = Inl ValueError"
  by (simp add: add_argument_def prefix_chars_def)

lemma main_uncaught: "main parse_args argv w = (Uncaught ValueError, w)"
  by (simp add: main_def cli_def add_argument_name_refused)

text \<open>
  C2. The claim: for every argument vector \<open>cli()\<close> constructs the parser and returns a
  namespace. The code does not: the first \<open>add_argument\<close> call passes the two names
  \<open>--name\<close> and \<open>project_name\<close>, which declares an option, and \<open>project_name\<close> is no option
  string. \<open>cli\<close> ends with \<open>ValueError\<close> whatever the arguments are, before it parses them.
\<close>

theorem cli_raises_value_error:
  "cli parse_args argv = Inl (Uncaught ValueError)"
  by (simp add: cli_def add_argument_name_refused)

section \<open>Validation before mutation\<close>

lemma resolve_inputs_invalid:
  "project_name args = Some n \<Longrightarrow> n \<noteq> [] \<Longrightarrow> \<not> validate_project_name (Some (lower n)) \<Longrightarrow>
   resolve_inputs args w = (Inl (Sys_Exit 1), w\<lparr>console := console w @ [Invalid_Project_Name]\<rparr>)"
  by (simp add: resolve_inputs_def console_print_def)

lemma main_with_args_invalid:
  "project_name args = Some n \<Longrightarrow> n \<noteq> [] \<Longrightarrow> \<not> validate_project_name (Some (lower n)) \<Longrightarrow>
   main_with_args args w = (Sys_Exit 1, w\<lparr>console := console w @ [Invalid_Project_Name]\<rparr>)"
  by (simp add: main_with_args_def resolve_inputs_invalid)

text \<open>
  C3. Validation precedes any mutation. Every run of \<open>main\<close> ends with exit status 1 and
  leaves the world as it was. And the guard of \<open>main\<close> itself: for a namespace whose
  project name is given and does not pass the check in lowercase, the body of \<open>main\<close>
  prints the message and calls \<open>sys.exit(1)\<close>; only the console has changed, no file
  operation has run.
\<close>

theorem invalid_name_exits_before_mutation:
  "(exit_status (fst (main parse_args argv w)) = 1 \<and> snd (main parse_args argv w) = w) \<and>
   (project_name args = Some n \<and> n \<noteq> [] \<and> \<not> validate_project_name (Some (lower n)) \<longrightarrow>
      main_with_args args w = (Sys_Exit 1, w\<lparr>console := console w @ [Invalid_Project_Name]\<rparr>))"
  by (simp add: main_uncaught main_with_args_invalid)

theorem invalid_name_exits_before_mutation_witness:
  "\<not> validate_project_name (Some (lower ''My Project'')) \<and>
   exit_status (fst (main sample_parse_args [''My Project''] used_world)) = 1 \<and>
   snd (main sample_parse_args [''My Project''] used_world) = used_world \<and>
   main_with_args \<lparr>project_name = Some ''My Project'', description = None, skip_git = False\<rparr> used_world =
     (Sys_Exit 1, used_world\<lparr>console := console used_world @ [Invalid_Project_Name]\<rparr>)"
proof -
  have bad: "\<not> validate_project_name (Some (lower ''My Project''))"
    by (simp add: validate_project_name_iff name_char_def lower_ascii_def LF_def)
  show ?thesis
    using bad
      invalid_name_exits_before_mutation [of sample_parse_args "[''My Project'']" used_world
        "\<lparr>project_name = Some ''My Project'', description = None, skip_git = False\<rparr>" "''My Project''"]
    by simp
qed

section \<open>Cleanup on a clean directory\<close>

lemma remove_git_repo_absent:
  "files w (base_dir @ [''.git'']) = None \<Longrightarrow>
   remove_git_repo base_dir w = (Returned, w\<lparr>console := console w @ [No_Git_Found]\<rparr>)"
  by (simp add: remove_git_repo_def exists_def console_print_def)

lemma remove_venv_absent:
  "files w (base_dir @ [''.venv'']) = None \<Longrightarrow>
   remove_venv base_dir w = (Returned, w\<lparr>console := console w @ [No_Venv_Found]\<rparr>)"
  by (simp add: remove_venv_def exists_def console_print_def)

lemma remove_database_absent:
  "files w (base_dir @ [''src'', ''db.sqlite3'']) = None \<Longrightarrow>
   remove_database base_dir w = (Returned, w\<lparr>console := console w @ [No_Database_Found]\<rparr>)"
  by (simp add: remove_database_def exists_def console_print_def)

lemma rmtree_ok_gone: "rmtree p w = (Ok u, w') \<Longrightarrow> files w' p = None"
  by (auto simp add: rmtree_def split: option.splits node.splits)

lemma unlink_ok_gone: "unlink p w = (Ok u, w') \<Longrightarrow> files w' p = None"
  by (auto simp add: unlink_def split: option.splits node.splits)

text \<open>A cleanup step that returned has left nothing at its path, so a second run finds nothing.\<close>

lemma remove_git_repo_returned_gone:
  "fst (remove_git_repo base_dir w) = Returned \<Longrightarrow>
   files (snd (remove_git_repo base_dir w)) (base_dir @ [''.git'']) = None"
  by (auto simp add: remove_git_repo_def exists_def console_print_def Let_def
      split: prod.splits result.splits dest: rmtree_ok_gone)

lemma remove_venv_returned_gone:
  "fst (remove_venv base_dir w) = Returned \<Longrightarrow>
   files (snd (remove_venv base_dir w)) (base_dir @ [''.venv'']) = None"
  by (auto simp add: remove_venv_def exists_def console_print_def Let_def
      split: prod.splits result.splits dest: rmtree_ok_gone)

lemma remove_database_returned_gone:
  "fst (remove_database base_dir w) = Returned \<Longrightarrow>
   files (snd (remove_database base_dir w)) (base_dir @ [''src'', ''db.sqlite3'']) = None"
  by (auto simp add: remove_database_def exists_def console_print_def Let_def
      split: prod.splits result.splits dest: unlink_ok_gone)

text \<open>
  C4. Each of the three cleanup steps, run where its target path does not exist, returns
  (no exit, no exception) and changes nothing but the console, where it reports that
  nothing was found.
\<close>

theorem cleanup_absent_noop:
  "(files w (base_dir @ [''.git'']) = None \<longrightarrow>
      remove_git_repo base_dir w = (Returned, w\<lparr>console := console w @ [No_Git_Found]\<rparr>)) \<and>
   (files w (base_dir @ [''.venv'']) = None \<longrightarrow>
      remove_venv base_dir w = (Returned, w\<lparr>console := console w @ [No_Venv_Found]\<rparr>)) \<and>
   (files w (base_dir @ [''src'', ''db.sqlite3'']) = None \<longrightarrow>
      remove_database base_dir w = (Returned, w\<lparr>console := console w @ [No_Database_Found]\<rparr>))"
  by (simp add: remove_git_repo_absent remove_venv_absent remove_database_absent)

theorem cleanup_absent_noop_witness:
  "files clean_world [''srv'', ''.git''] = None \<and>
   files clean_world [''srv'', ''.venv''] = None \<and>
   files clean_world [''srv'', ''src'', ''db.sqlite3''] = None \<and>
   remove_git_repo [''srv''] clean_world = (Returned, clean_world\<lparr>console := [No_Git_Found]\<rparr>) \<and>
   remove_venv [''srv''] clean_world = (Returned, clean_world\<lparr>console := [No_Venv_Found]\<rparr>) \<and>
   remove_database [''srv''] clean_world = (Returned, clean_world\<lparr>console := [No_Database_Found]\<rparr>)"
proof -
  have absent: "files clean_world [''srv'', ''.git''] = None"
    "files clean_world [''srv'', ''.venv''] = None"
    "files clean_world [''srv'', ''src'', ''db.sqlite3''] = None"
    by (simp_all add: clean_world_def)
  have quiet: "console clean_world = []"
    by (simp add: clean_world_def)
  show ?thesis
    using absent quiet cleanup_absent_noop [of clean_world "[''srv'']"]
    by simp
qed

section \<open>The rewrite of the manifest\<close>








text \<open>A run of the step that returned has written the rewritten text, and nothing else, to the manifest.\<close>

lemma update_pyproject_toml_returned:
  assumes "files w (base_dir @ [''pyproject.toml'']) = Some (File bytes)"
    and "fst (update_pyproject_toml base_dir n d w) = Returned"
  shows "files (snd (update_pyproject_toml base_dir n d w)) (base_dir @ [''pyproject.toml'']) =
           Some (File (write_newlines (linesep w) (updated_content (universal_newlines bytes) n d)))"
  using assms
  by (auto simp add: update_pyproject_toml_def exists_def read_text_def write_text_def
      console_print_def Let_def split: option.splits if_splits)





lemma clean_world_update_returned:
  "fst (update_pyproject_toml [''srv''] ''shop'' None clean_world) = Returned"
  by (simp add: update_pyproject_toml_def clean_world_def exists_def read_text_def write_text_def
      console_print_def no_faults_def Let_def)

lemma used_world_update_returned:
  "fst (update_pyproject_toml [''srv''] ''shop'' None used_world) = Returned"
  by (simp add: update_pyproject_toml_def used_world_def exists_def read_text_def write_text_def
      console_print_def no_faults_def Let_def)



text \<open>
  C5. The rewrite of the manifest is a function of the original text, the project name
  and the description. Two runs of \<open>update_pyproject_toml\<close> that return, in any two
  worlds and base directories whose manifests hold the same bytes, have written the same
  text \<open>updated_content (universal_newlines bytes) n d\<close>; on disk each \<open>\n\<close> of it is the
  line separator of the platform, so with equal separators the two files are equal.
\<close>

theorem manifest_rewrite_deterministic:
  "files w1 (b1 @ [''pyproject.toml'']) = Some (File bytes) \<and>
   files w2 (b2 @ [''pyproject.toml'']) = Some (File bytes) \<and>
   fst (update_pyproject_toml b1 n d w1) = Returned \<and>
   fst (update_pyproject_toml b2 n d w2) = Returned \<longrightarrow>
   files (snd (update_pyproject_toml b1 n d w1)) (b1 @ [''pyproject.toml'']) =
     Some (File (write_newlines (linesep w1) (updated_content (universal_newlines bytes) n d))) \<and>
   files (snd (update_pyproject_toml b2 n d w2)) (b2 @ [''pyproject.toml'']) =
     Some (File (write_newlines (linesep w2) (updated_content (universal_newlines bytes) n d))) \<and>
   (linesep w1 = linesep w2 \<longrightarrow>
      files (snd (update_pyproject_toml b1 n d w1)) (b1 @ [''pyproject.toml'']) =
      files (snd (update_pyproject_toml b2 n d w2)) (b2 @ [''pyproject.toml'']))"
  by (simp add: update_pyproject_toml_returned)

theorem manifest_rewrite_deterministic_witness:
  "files clean_world [''srv'', ''pyproject.toml''] = Some (File sample_manifest) \<and>
   files used_world [''srv'', ''pyproject.toml''] = Some (File sample_manifest) \<and>
   fst (update_pyproject_toml [''srv''] ''shop'' None clean_world) = Returned \<and>
   fst (update_pyproject_toml [''srv''] ''shop'' None used_world) = Returned \<and>
   linesep clean_world = linesep used_world \<and>
   files (snd (update_pyproject_toml [''srv''] ''shop'' None clean_world)) [''srv'', ''pyproject.toml''] =
   files (snd (update_pyproject_toml [''srv''] ''shop'' None used_world)) [''srv'', ''pyproject.toml'']"
proof -
  have same: "files clean_world [''srv'', ''pyproject.toml''] = Some (File sample_manifest)"
    "files used_world [''srv'', ''pyproject.toml''] = Some (File sample_manifest)"
    "linesep clean_world = linesep used_world"
    by (simp_all add: clean_world_def used_world_def)
  show ?thesis
    using same clean_world_update_returned used_world_update_returned
      manifest_rewrite_deterministic [of clean_world "[''srv'']" sample_manifest used_world "[''srv'']" "''shop''" None]
    by simp
qed





section \<open>File system errors\<close>














lemmas sample_run = denied_world_def used_world_def bare_world_def denying_def no_faults_def exists_def
  rmtree_def unlink_def read_text_def write_text_def console_print_def console_prints_def Let_def


section \<open>The body of main with the skip flag\<close>

text \<open>What the steps other than \<open>remove_git_repo\<close> leave alone when they return.\<close>

lemma remove_venv_frame:
  "fst (remove_venv b w) = Returned \<Longrightarrow> \<not> prefix (b @ [''.venv'']) q \<Longrightarrow>
   files (snd (remove_venv b w)) q = files w q"
  by (auto simp add: remove_venv_def rmtree_def exists_def console_print_def Let_def
      split: if_splits option.splits node.splits)

lemma remove_database_frame:
  "fst (remove_database b w) = Returned \<Longrightarrow> q \<noteq> b @ [''src'', ''db.sqlite3''] \<Longrightarrow>
   files (snd (remove_database b w)) q = files w q"
  by (auto simp add: remove_database_def unlink_def exists_def console_print_def Let_def
      split: if_splits option.splits node.splits)

lemma create_readme_frame:
  "fst (create_readme b n d w) = Returned \<Longrightarrow> q \<noteq> b @ [''README.md''] \<Longrightarrow>
   files (snd (create_readme b n d w)) q = files w q"
  by (auto simp add: create_readme_def write_text_def console_print_def Let_def
      split: if_splits option.splits node.splits)

lemma update_pyproject_toml_frame:
  "fst (update_pyproject_toml b n d w) = Returned \<Longrightarrow> q \<noteq> b @ [''pyproject.toml''] \<Longrightarrow>
   files (snd (update_pyproject_toml b n d w)) q = files w q"
  by (auto simp add: update_pyproject_toml_def read_text_def write_text_def exists_def console_print_def Let_def
      split: if_splits option.splits node.splits)

lemma keepsD: "keeps q step \<Longrightarrow> step w = (Returned, w') \<Longrightarrow> files w' q = files w q"
  by (auto simp add: keeps_def dest: spec [of _ w])

lemma keeps_progress_step:
  assumes "keeps q step"
  shows "keeps q (progress_step t step)"
  unfolding keeps_def
proof (intro allI impI)
  fix w
  assume r: "fst (progress_step t step w) = Returned"
  obtain o1 w1 where s1: "step (console_print (Progress_Update t) w) = (o1, w1)"
    by (cases "step (console_print (Progress_Update t) w)")
  with r have o1: "o1 = Returned" by (cases o1) (auto simp add: progress_step_def)
  from keepsD [OF assms] s1 o1 have "files w1 q = files (console_print (Progress_Update t) w) q"
    by simp
  with s1 o1 show "files (snd (progress_step t step w)) q = files w q"
    by (simp add: progress_step_def console_print_def console_prints_def)
qed

lemma keeps_run_steps: "\<forall>step \<in> set steps. keeps q step \<Longrightarrow> keeps q (run_steps steps)"
proof (induction steps)
  case Nil
  show ?case by (simp add: keeps_def)
next
  case (Cons s steps)
  then have ks: "keeps q s" and kr: "keeps q (run_steps steps)" by simp_all
  show ?case
    unfolding keeps_def
  proof (intro allI impI)
    fix w
    assume r: "fst (run_steps (s # steps) w) = Returned"
    obtain o1 w1 where s1: "s w = (o1, w1)" by (cases "s w")
    with r have o1: "o1 = Returned" by (cases o1) auto
    from keepsD [OF ks] s1 o1 have f1: "files w1 q = files w q" by simp
    from r s1 o1 have r2: "fst (run_steps steps w1) = Returned" by simp
    obtain w2 where s2: "run_steps steps w1 = (Returned, w2)"
      using r2 by (cases "run_steps steps w1") simp
    from keepsD [OF kr s2] have "files w2 q = files w1 q" .
    with f1 s1 o1 s2 show "files (snd (run_steps (s # steps) w)) q = files w q" by simp
  qed
qed

lemma keeps_git_without_git_step:
  "keeps (b @ ''.git'' # rest) (run_steps (setup_steps b n d True))"
proof (rule keeps_run_steps)
  have "keeps (b @ ''.git'' # rest) (remove_venv b)"
    by (simp add: keeps_def remove_venv_frame)
  moreover have "keeps (b @ ''.git'' # rest) (remove_database b)"
    by (simp add: keeps_def remove_database_frame)
  moreover have "keeps (b @ ''.git'' # rest) (create_readme b n d)"
    by (simp add: keeps_def create_readme_frame)
  moreover have "keeps (b @ ''.git'' # rest) (update_pyproject_toml b n d)"
    by (simp add: keeps_def update_pyproject_toml_frame)
  ultimately show "\<forall>step \<in> set (setup_steps b n d True). keeps (b @ ''.git'' # rest) step"
    by (simp add: setup_steps_def keeps_progress_step)
qed

lemma ask_project_name_same_files:
  "files (snd (ask_project_name answers w)) = files w \<and>
   script_dir (snd (ask_project_name answers w)) = script_dir w"
  by (induction answers arbitrary: w) (auto simp add: console_print_def Let_def)

lemma ask_description_same_files:
  "files (snd (ask_description w)) = files w \<and> script_dir (snd (ask_description w)) = script_dir w"
  by (auto simp add: ask_description_def Let_def split: list.splits)

lemma interactive_setup_same_files:
  "files (snd (interactive_setup w)) = files w \<and> script_dir (snd (interactive_setup w)) = script_dir w"
proof -
  let ?w1 = "console_prints [Interactive_Setup_Panel, Blank_Line] w"
  have a: "files (snd (ask_project_name (prompt_answers ?w1) ?w1)) = files w \<and>
           script_dir (snd (ask_project_name (prompt_answers ?w1) ?w1)) = script_dir w"
    using ask_project_name_same_files [of "prompt_answers ?w1" ?w1] by (simp add: console_prints_def)
  show ?thesis
    using a ask_description_same_files [of "snd (ask_project_name (prompt_answers ?w1) ?w1)"]
    by (auto simp add: interactive_setup_def Let_def console_print_def split: prod.splits sum.splits)
qed

lemma resolve_inputs_same_files:
  "files (snd (resolve_inputs args w)) = files w \<and> script_dir (snd (resolve_inputs args w)) = script_dir w"
  using interactive_setup_same_files [of w]
  by (auto simp add: resolve_inputs_def console_print_def split: option.splits)

lemma main_with_args_skip_git_keeps_git:
  assumes "skip_git args" and "fst (main_with_args args w) = Returned"
  shows "files (snd (main_with_args args w)) (script_dir w @ ''.git'' # rest) =
         files w (script_dir w @ ''.git'' # rest)"
proof -
  obtain r w1 where ri: "resolve_inputs args w = (r, w1)" by (cases "resolve_inputs args w")
  with resolve_inputs_same_files [of args w]
  have same: "files w1 = files w" "script_dir w1 = script_dir w" by simp_all
  show ?thesis
  proof (cases r)
    case (Inl out)
    with ri have "main_with_args args w = (out, w1)" by (simp add: main_with_args_def)
    with same show ?thesis by simp
  next
    case (Inr nd)
    obtain n d where nd: "nd = (n, d)" by (cases nd)
    let ?w2 = "console_prints [Blank_Line, Initializing_Panel n, Blank_Line, Progress_Add_Task 4] w1"
    obtain o3 w3 where run: "run_steps (setup_steps (script_dir w) n d True) ?w2 = (o3, w3)"
      by (cases "run_steps (setup_steps (script_dir w) n d True) ?w2")
    from ri Inr nd run assms same have o3: "o3 = Returned"
      by (cases o3) (auto simp add: main_with_args_def Let_def)
    from ri Inr nd run o3 assms(1) same
    have fin: "files (snd (main_with_args args w)) = files w3"
      by (simp add: main_with_args_def Let_def console_prints_def)
    from keepsD [OF keeps_git_without_git_step] run o3
    have "files w3 (script_dir w @ ''.git'' # rest) = files ?w2 (script_dir w @ ''.git'' # rest)" by simp
    with fin same show ?thesis by (simp add: console_prints_def)
  qed
qed

lemma setup_steps_skip_git:
  "setup_steps b n d True =
     [progress_step Venv_Task (remove_venv b), progress_step Database_Task (remove_database b),
      progress_step Readme_Task (create_readme b n d),
      progress_step Pyproject_Task (update_pyproject_toml b n d)]"
  by (simp add: setup_steps_def)

lemmas sample_steps = main_with_args_def resolve_inputs_def validate_project_name_iff
  name_char_def lower_ascii_def LF_def setup_steps_def progress_step_def
  remove_git_repo_def remove_venv_def remove_database_def create_readme_def update_pyproject_toml_def

text \<open>
  A run of the body of \<open>main\<close> on the checkout in use, for the namespace of
  \<open>My-Project --skip-git\<close>: the four other steps run in order under the lowercase name, and
  the repository is still there.
\<close>

lemma mixed_case_run:
  "fst (main_with_args mixed_case_args used_world) = Returned \<and>
   console (snd (main_with_args mixed_case_args used_world)) =
     [Blank_Line, Initializing_Panel ''my-project'', Blank_Line, Progress_Add_Task 4,
      Progress_Update Venv_Task, Removing_Venv [''srv'', ''.venv''], Venv_Removed, Sleep, Progress_Advance,
      Progress_Update Database_Task, Removing_Database [''srv'', ''src'', ''db.sqlite3''], Database_Removed,
      Sleep, Progress_Advance,
      Progress_Update Readme_Task, Creating_Readme ''my-project'', Readme_Created, Sleep, Progress_Advance,
      Progress_Update Pyproject_Task, Updating_Pyproject ''my-project'', Pyproject_Updated, Sleep,
      Progress_Advance, Progress_Complete, Blank_Line, Success_Panel ''my-project'', Next_Steps_Panel] \<and>
   files (snd (main_with_args mixed_case_args used_world)) [''srv'', ''.git'', ''HEAD''] =
     Some (File ''ref: refs/heads/main'')"
  by (simp add: sample_run sample_steps mixed_case_args_def)

text \<open>
  C8. The claim: in every run of \<open>main\<close> with the skip flag, \<open>remove_git_repo\<close> is not
  called and the other four steps execute in order. The body of \<open>main\<close> does that for a
  namespace with the flag (\<open>setup_steps_skip_git\<close>, \<open>main_with_args_skip_git_keeps_git\<close>),
  but no run of \<open>main\<close> gets there: with \<open>--skip-git my-project\<close> on the command line
  \<open>main\<close> ends in \<open>cli\<close> with \<open>ValueError\<close>, and none of the four steps has run.
\<close>

theorem main_with_skip_git_raises:
  "main parse_args [''--skip-git'', ''my-project''] w = (Uncaught ValueError, w)"
  by (rule main_uncaught)

section \<open>The body of main with a mixed-case name\<close>

lemma resolve_inputs_lowercases:
  "project_name args = Some given \<Longrightarrow> given \<noteq> [] \<Longrightarrow> validate_project_name (Some (lower given)) \<Longrightarrow>
   resolve_inputs args w = (Inr (lower given, description args), w)"
  by (simp add: resolve_inputs_def)

lemma mixed_case_readme:
  "files (snd (main_with_args mixed_case_args used_world)) [''srv'', ''README.md''] =
     Some (File (write_newlines [LF]
       (readme_content ''my-project'' ''A Django project built with the Django Starter Template.'')))"
  by (simp add: sample_run sample_steps mixed_case_args_def or_default_def)

text \<open>
  C9. The claim: a run of \<open>main\<close> with a name whose lowercase form passes the check is
  accepted, and the outputs use the lowercase form. The body of \<open>main\<close> does that for a
  namespace with such a name (\<open>resolve_inputs_lowercases\<close>), but no run of \<open>main\<close> gets
  there: with \<open>My-Project\<close> on the command line \<open>main\<close> ends in \<open>cli\<close> with \<open>ValueError\<close>
  and has written nothing.
\<close>

theorem main_with_mixed_case_name_raises:
  "main parse_args [''My-Project''] w = (Uncaught ValueError, w)"
  by (rule main_uncaught)

end
